theory Spec2Isabelle
  imports Main "HOL-Library.Word"
begin

unbundle bit_operations_syntax

section \<open>The mentor register file (include/linux/mentor.h and its implementation)\<close>

type_synonym u8 = "8 word"
type_synonym u32 = "32 word"

text \<open>\<^verbatim>\<open>#define MENTOR_TOTAL_WRITES_ADDR 0x05\<close>\<close>

definition MENTOR_TOTAL_WRITES_ADDR :: u8 where
  "MENTOR_TOTAL_WRITES_ADDR = 0x05"

text \<open>
  The state of the subsystem: the array \<^verbatim>\<open>mentor_data\<close> of
  \<^verbatim>\<open>MENTOR_TOTAL_WRITES_ADDR + 1\<close> cells, and the kernel log that \<^verbatim>\<open>printk\<close> appends
  to. The spinlock serialises the critical sections, so each call is one atomic step on
  this state.
\<close>

record mentor_state =
  mentor_data :: "u32 list"
  klog :: "string list"

text \<open>\<^verbatim>\<open>static u32 mentor_data[MENTOR_TOTAL_WRITES_ADDR + 1] = { 40, 41, 42, 43, 44, 0 };\<close>\<close>

definition mentor_init :: mentor_state where
  "mentor_init = \<lparr>mentor_data = [40, 41, 42, 43, 44, 0], klog = []\<rparr>"

text \<open>Logs the message and returns \<^verbatim>\<open>0xFFFFFFFF\<close>.\<close>

definition mentor_simulate_undefined_behavior :: "mentor_state \<Rightarrow> u32 \<times> mentor_state" where
  "mentor_simulate_undefined_behavior s =
     (0xFFFFFFFF, s\<lparr>klog := klog s @ [''mentor: undefined behavior!'']\<rparr>)"

text \<open>
  \<^verbatim>\<open>u32 __mentor_read(u8 addr)\<close>, which the public macro \<^verbatim>\<open>mentor_read(addr)\<close> expands to.
\<close>

definition mentor_read :: "u8 \<Rightarrow> mentor_state \<Rightarrow> u32 \<times> mentor_state" where
  "mentor_read addr s =
     (if addr > MENTOR_TOTAL_WRITES_ADDR then mentor_simulate_undefined_behavior s
      else (mentor_data s ! unat addr, s))"

text \<open>\<^verbatim>\<open>void mentor_write(u8 addr, u32 value)\<close>\<close>

definition mentor_write :: "u8 \<Rightarrow> u32 \<Rightarrow> mentor_state \<Rightarrow> mentor_state" where
  "mentor_write addr val s =
     (if addr \<ge> MENTOR_TOTAL_WRITES_ADDR then snd (mentor_simulate_undefined_behavior s)
      else
        (let d1 = (mentor_data s)[unat addr := val];
             d2 = d1[unat MENTOR_TOTAL_WRITES_ADDR := d1 ! unat MENTOR_TOTAL_WRITES_ADDR + 1]
         in s\<lparr>mentor_data := d2\<rparr>))"

text \<open>A sequence of writes, issued one after the other.\<close>

fun mentor_writes :: "(u8 \<times> u32) list \<Rightarrow> mentor_state \<Rightarrow> mentor_state" where
  "mentor_writes [] s = s"
| "mentor_writes ((a, v) # ws) s = mentor_writes ws (mentor_write a v s)"

text \<open>The array keeps its six cells: every index the code uses after its check is in range.\<close>

definition mentor_wf :: "mentor_state \<Rightarrow> bool" where
  "mentor_wf s = (length (mentor_data s) = 6)"

section \<open>The longest-symbol generator (kernel/kallsyms_gen_longest.c)\<close>

text \<open>
  The three string constants of \<^verbatim>\<open>main\<close>. \<^verbatim>\<open>sizeof(x) - 1\<close> is the length of the
  string without its terminating NUL.
\<close>

definition start_str :: string where
  "start_str = ''start_of_the_longest_symbol_possible__''"

definition end_str :: string where
  "end_str = ''__end_of_the_longest_symbol_possible''"

definition pattern :: string where
  "pattern = ''123456789_''"

text \<open>
  \<^verbatim>\<open>KSYM_NAME_LEN\<close> is a macro of \<^verbatim>\<open>linux/kallsyms.h\<close>, which is not among the sources:
  it is the parameter \<open>K\<close> of everything below, an \<^verbatim>\<open>int\<close> constant. Where it meets a
  \<^verbatim>\<open>size_t\<close> operand the arithmetic is that of \<^verbatim>\<open>size_t\<close>, modulo \<open>2 ^ 64\<close>.
\<close>

definition to_size_t :: "int \<Rightarrow> nat" where
  "to_size_t x = nat (x mod 2 ^ 64)"

text \<open>
  \<^verbatim>\<open>_Static_assert((KSYM_NAME_LEN - 1) >= (sizeof(start) - 1) + (sizeof(end) - 1), "")\<close>:
  when it fails there is no program.
\<close>

definition static_assert_ok :: "int \<Rightarrow> bool" where
  "static_assert_ok K = (to_size_t (K - 1) \<ge> length start_str + length end_str)"

text \<open>
  \<^verbatim>\<open>pattern_length = (KSYM_NAME_LEN - 1) - (sizeof(start) - 1) - (sizeof(end) - 1)\<close>
\<close>

definition pattern_length :: "int \<Rightarrow> nat" where
  "pattern_length K =
     to_size_t (int (to_size_t (int (to_size_t (K - 1)) - int (length start_str)))
                  - int (length end_str))"

text \<open>
  \<^verbatim>\<open>for (size_t i = 0; i < pattern_length; ++i) putchar(pattern[i % (sizeof(pattern) - 1)]);\<close>
  with the standard output written so far as the accumulator.
\<close>

function fill_loop :: "nat \<Rightarrow> nat \<Rightarrow> string \<Rightarrow> string" where
  "fill_loop i n out =
     (if i < n then fill_loop (i + 1) n (out @ [pattern ! (i mod length pattern)]) else out)"
  by pat_completeness auto
termination
  by (relation "measure (\<lambda>(i, n, out). n - i)") auto

declare fill_loop.simps [simp del]

record process_result =
  stdout :: string
  exit_status :: int

text \<open>
  \<^verbatim>\<open>int main(void)\<close>. Neither string passed to \<^verbatim>\<open>printf\<close> holds a conversion, so each
  is printed as it is. \<open>None\<close>: the static assertion fails and nothing is built.
\<close>

definition main :: "int \<Rightarrow> process_result option" where
  "main K =
     (if \<not> static_assert_ok K then None
      else
        (let out1 = start_str;
             out2 = fill_loop 0 (pattern_length K) out1;
             out3 = out2 @ end_str
         in Some \<lparr>stdout = out3, exit_status = 0\<rparr>))"

section \<open>x86 jump labels (arch/x86/include/asm/jump_label.h)\<close>

subsection \<open>The assembler directives of a table entry\<close>

text \<open>
  Addresses and assembler expressions are integers. A data directive of \<open>n\<close> bytes
  stores its expression modulo \<open>2 ^ (8 * n)\<close> at the location counter (the \<^verbatim>\<open>.\<close> of the
  expression) and advances the counter by \<open>n\<close>. A section under assembly is its
  location counter and the data emitted so far: address, size in bytes, stored value.
\<close>

type_synonym byte = "8 word"

record field =
  f_addr :: int
  f_size :: nat
  f_val :: int

record asm_section =
  dot :: int
  emitted :: "field list"

definition empty_section :: "int \<Rightarrow> asm_section" where
  "empty_section d = \<lparr>dot = d, emitted = []\<rparr>"

definition asm_data :: "nat \<Rightarrow> (int \<Rightarrow> int) \<Rightarrow> asm_section \<Rightarrow> asm_section" where
  "asm_data n e s =
     \<lparr>dot = dot s + int n,
      emitted = emitted s @ [\<lparr>f_addr = dot s, f_size = n, f_val = e (dot s) mod 2 ^ (8 * n)\<rparr>]\<rparr>"

text \<open>\<^verbatim>\<open>.long expr\<close>: four bytes.\<close>

definition asm_long :: "(int \<Rightarrow> int) \<Rightarrow> asm_section \<Rightarrow> asm_section" where
  "asm_long = asm_data 4"

text \<open>
  Modelled from the spec: \<^verbatim>\<open>_ASM_PTR\<close> and \<^verbatim>\<open>_ASM_ALIGN\<close>, macros of \<^verbatim>\<open>asm/asm.h\<close>, which
  is not among the sources. \<^verbatim>\<open>_ASM_PTR\<close> is the pointer-width data directive and
  \<^verbatim>\<open>_ASM_ALIGN\<close> aligns the location counter to the pointer width; the width in bytes
  is the parameter \<open>p\<close> (4 on a 32-bit build, 8 on a 64-bit build).
\<close>

definition align_up :: "nat \<Rightarrow> int \<Rightarrow> int" where
  "align_up p d = d + (- d) mod int p"

definition ASM_ALIGN :: "nat \<Rightarrow> asm_section \<Rightarrow> asm_section" where
  "ASM_ALIGN p s = s\<lparr>dot := align_up p (dot s)\<rparr>"

definition ASM_PTR :: "nat \<Rightarrow> (int \<Rightarrow> int) \<Rightarrow> asm_section \<Rightarrow> asm_section" where
  "ASM_PTR p = asm_data p"

text \<open>
  \<^verbatim>\<open>JUMP_TABLE_ENTRY(l_yes, key, branch)\<close>, assembled into the section \<^verbatim>\<open>__jump_table\<close>.
  \<open>site\<close> is the address of the local label \<^verbatim>\<open>1:\<close> that \<^verbatim>\<open>1b\<close> refers to.
\<close>

definition JUMP_TABLE_ENTRY ::
  "nat \<Rightarrow> int \<Rightarrow> int \<Rightarrow> int \<Rightarrow> int \<Rightarrow> asm_section \<Rightarrow> asm_section" where
  "JUMP_TABLE_ENTRY p site l_yes key branch s =
     (let s0 = ASM_ALIGN p s;
          s1 = asm_long (\<lambda>here. site - here) s0;
          s2 = asm_long (\<lambda>here. l_yes - here) s1;
          s3 = ASM_PTR p (\<lambda>here. key + branch - here) s2
      in s3)"

text \<open>The fields of one entry, assembled at location counter \<open>d\<close>.\<close>

definition jump_entry :: "nat \<Rightarrow> int \<Rightarrow> int \<Rightarrow> int \<Rightarrow> int \<Rightarrow> int \<Rightarrow> field list" where
  "jump_entry p site l_yes key branch d =
     emitted (JUMP_TABLE_ENTRY p site l_yes key branch (empty_section d))"

subsection \<open>The compiled site\<close>

text \<open>
  What the template puts at the label \<^verbatim>\<open>1:\<close>: \<^verbatim>\<open>jmp l_yes\<close>, or the bytes of a
  \<^verbatim>\<open>.byte\<close> directive.
\<close>

datatype insn = JMP int | BYTE "byte list"

text \<open>
  Modelled from the spec: \<^verbatim>\<open>BYTES_NOP5\<close>, a macro of \<^verbatim>\<open>asm/nops.h\<close>, which is not among
  the sources: the fixed-length no-effect padding instruction, five bytes as its name
  says (here the 64-bit build's \<^verbatim>\<open>nopl 0x0(%rax,%rax,1)\<close>).
\<close>

definition BYTES_NOP5 :: "byte list" where
  "BYTES_NOP5 = [0x0f, 0x1f, 0x44, 0x00, 0x00]"

text \<open>The output of one \<^verbatim>\<open>asm goto\<close>: the site and the table with the new entry.\<close>

record asm_out =
  site_addr :: int
  site_insn :: insn
  jump_table :: asm_section

text \<open>
  \<^verbatim>\<open>ARCH_STATIC_BRANCH_ASM(l_yes, key, branch)\<close>; \<open>hack\<close> is
  \<^verbatim>\<open>CONFIG_HAVE_JUMP_LABEL_HACK\<close>, which selects one of the two definitions.
\<close>

definition ARCH_STATIC_BRANCH_ASM ::
  "bool \<Rightarrow> nat \<Rightarrow> int \<Rightarrow> int \<Rightarrow> int \<Rightarrow> int \<Rightarrow> asm_section \<Rightarrow> asm_out" where
  "ARCH_STATIC_BRANCH_ASM hack p site l_yes key branch tbl =
     (if hack then
        \<lparr>site_addr = site, site_insn = JMP l_yes,
         jump_table = JUMP_TABLE_ENTRY p site l_yes key branch tbl\<rparr>
      else
        \<lparr>site_addr = site, site_insn = BYTE BYTES_NOP5,
         jump_table = JUMP_TABLE_ENTRY p site l_yes key branch tbl\<rparr>)"

text \<open>
  The assembly of \<^verbatim>\<open>arch_static_branch(key, branch)\<close>: the operands are
  \<^verbatim>\<open>"i" (key), "i" (2 | branch)\<close> with the flag and \<^verbatim>\<open>"i" (key), "i" (branch)\<close> without.
\<close>

definition arch_static_branch_asm ::
  "bool \<Rightarrow> nat \<Rightarrow> int \<Rightarrow> int \<Rightarrow> int \<Rightarrow> bool \<Rightarrow> asm_section \<Rightarrow> asm_out" where
  "arch_static_branch_asm hack p site l_yes key branch tbl =
     (if hack then ARCH_STATIC_BRANCH_ASM hack p site l_yes key (2 OR of_bool branch) tbl
      else ARCH_STATIC_BRANCH_ASM hack p site l_yes key (of_bool branch) tbl)"

text \<open>The assembly of \<^verbatim>\<open>arch_static_branch_jump(key, branch)\<close>, the same in both builds.\<close>

definition arch_static_branch_jump_asm ::
  "nat \<Rightarrow> int \<Rightarrow> int \<Rightarrow> int \<Rightarrow> bool \<Rightarrow> asm_section \<Rightarrow> asm_out" where
  "arch_static_branch_jump_asm p site l_yes key branch tbl =
     \<lparr>site_addr = site, site_insn = JMP l_yes,
      jump_table = JUMP_TABLE_ENTRY p site l_yes key (of_bool branch) tbl\<rparr>"

text \<open>The third field of the entry an \<^verbatim>\<open>asm goto\<close> has just emitted.\<close>

definition key_field :: "asm_out \<Rightarrow> field" where
  "key_field out = last (emitted (jump_table out))"

subsection \<open>The sites of a build\<close>

text \<open>
  A call of one of the two inline functions of the header, with the addresses the
  compiler gives its site and its label \<^verbatim>\<open>l_yes\<close>, and its two arguments.
\<close>

datatype branch_fn = Static_branch | Static_branch_jump

record call =
  c_fn :: branch_fn
  c_site :: int
  c_l_yes :: int
  c_key :: int
  c_branch :: bool

text \<open>
  What a build compiles for one call: \<^verbatim>\<open>arch_static_branch\<close> is the definition the
  \<^verbatim>\<open>#ifdef\<close> selects, \<^verbatim>\<open>arch_static_branch_jump\<close> stands outside the \<^verbatim>\<open>#ifdef\<close>.
\<close>

definition compile_call :: "bool \<Rightarrow> nat \<Rightarrow> call \<Rightarrow> asm_section \<Rightarrow> asm_out" where
  "compile_call hack p c tbl =
     (case c_fn c of
        Static_branch \<Rightarrow>
          arch_static_branch_asm hack p (c_site c) (c_l_yes c) (c_key c) (c_branch c) tbl
      | Static_branch_jump \<Rightarrow>
          arch_static_branch_jump_asm p (c_site c) (c_l_yes c) (c_key c) (c_branch c) tbl)"

text \<open>
  The calls of a build, compiled in order: the sites, and the table that every
  \<^verbatim>\<open>asm goto\<close> appends its entry to.
\<close>

fun compile_calls ::
  "bool \<Rightarrow> nat \<Rightarrow> call list \<Rightarrow> asm_section \<Rightarrow> (int \<times> insn) list \<times> asm_section" where
  "compile_calls hack p [] tbl = ([], tbl)"
| "compile_calls hack p (c # cs) tbl =
     (let out = compile_call hack p c tbl;
          rest = compile_calls hack p cs (jump_table out)
      in ((site_addr out, site_insn out) # fst rest, snd rest))"

text \<open>The encoding of a call's site by the flag and the function called.\<close>

definition variant_site :: "bool \<Rightarrow> call \<Rightarrow> insn" where
  "variant_site hack c =
     (if hack then JMP (c_l_yes c)
      else (case c_fn c of Static_branch \<Rightarrow> BYTE BYTES_NOP5
                         | Static_branch_jump \<Rightarrow> JMP (c_l_yes c)))"

subsection \<open>The value of the inlined check\<close>

text \<open>
  An \<^verbatim>\<open>asm goto\<close> with the one label \<^verbatim>\<open>l_yes\<close> leaves in one of two ways: control
  falls through to the statement after it, or it transfers to \<^verbatim>\<open>l_yes\<close>. After it the
  functions read \<^verbatim>\<open>return false; l_yes: return true;\<close>.
\<close>

datatype asm_exit = Fallthrough | Goto_l_yes

definition arch_static_branch :: "bool \<Rightarrow> asm_exit \<Rightarrow> bool" where
  "arch_static_branch hack ex =
     (if hack then (case ex of Fallthrough \<Rightarrow> False | Goto_l_yes \<Rightarrow> True)
      else (case ex of Fallthrough \<Rightarrow> False | Goto_l_yes \<Rightarrow> True))"

definition arch_static_branch_jump :: "asm_exit \<Rightarrow> bool" where
  "arch_static_branch_jump ex = (case ex of Fallthrough \<Rightarrow> False | Goto_l_yes \<Rightarrow> True)"

subsection \<open>Text memory, the entry-size oracle and the patch of one site\<close>

text \<open>The executable text: a byte at every address.\<close>

type_synonym text_mem = "int \<Rightarrow> byte"

definition read_bytes :: "text_mem \<Rightarrow> int \<Rightarrow> nat \<Rightarrow> byte list" where
  "read_bytes mem a n = map (\<lambda>i. mem (a + int i)) [0..<n]"

definition write_bytes :: "text_mem \<Rightarrow> int \<Rightarrow> byte list \<Rightarrow> text_mem" where
  "write_bytes mem a bs =
     (\<lambda>x. if a \<le> x \<and> x < a + int (length bs) then bs ! nat (x - a) else mem x)"

text \<open>Four bytes, least significant first.\<close>

definition le32 :: "int \<Rightarrow> byte list" where
  "le32 v = map (\<lambda>i. word_of_int (v div 2 ^ (8 * i))) [0..<4]"

text \<open>
  Modelled from the spec: the transfer instruction that the Patch Engine installs at an
  enabled site (\<^verbatim>\<open>arch/x86/kernel/jump_label.c\<close>, not among the sources): the
  five-byte \<^verbatim>\<open>jmp rel32\<close>, opcode \<open>0xE9\<close> and the displacement from the end of the
  instruction to the label.
\<close>

definition JMP32 :: "int \<Rightarrow> int \<Rightarrow> byte list" where
  "JMP32 site target = 0xE9 # le32 (target - (site + 5))"

text \<open>
  Modelled from the spec: the Site Encoding rules of Variant B (the Patch Engine is not
  among the sources): the transfer when the key is enabled, the padding when it is not.
\<close>

definition site_encoding :: "int \<Rightarrow> int \<Rightarrow> bool \<Rightarrow> byte list" where
  "site_encoding site l_yes enabled = (if enabled then JMP32 site l_yes else BYTES_NOP5)"

text \<open>
  Modelled from the spec: \<^verbatim>\<open>arch_jump_entry_size\<close>, which the header only declares
  (\<^verbatim>\<open>extern int arch_jump_entry_size(struct jump_entry *entry)\<close>); its body is not among
  the sources. It recognises the instruction at the site by its lead bytes against the
  two encodings the system emits, padding or transfer, and gives the length; \<open>None\<close> is
  the failure on any other bytes.
\<close>

definition arch_jump_entry_size :: "text_mem \<Rightarrow> int \<Rightarrow> nat option" where
  "arch_jump_entry_size mem site =
     (if read_bytes mem site 5 = BYTES_NOP5 then Some 5
      else if mem site = 0xE9 then Some 5
      else None)"

text \<open>
  Modelled from the spec: the Patch Engine on one site (not among the sources): it
  consults the oracle first and writes nothing when the oracle fails; otherwise it
  installs the bytes of the wanted encoding.
\<close>

definition patch_site :: "text_mem \<Rightarrow> int \<Rightarrow> int \<Rightarrow> bool \<Rightarrow> text_mem option" where
  "patch_site mem site l_yes enabled =
     (case arch_jump_entry_size mem site of
        None \<Rightarrow> None
      | Some n \<Rightarrow> Some (write_bytes mem site (site_encoding site l_yes enabled)))"

text \<open>A text that holds the placeholder of a Variant B site at \<open>site\<close>.\<close>

definition placeholder_text :: "int \<Rightarrow> text_mem" where
  "placeholder_text site = write_bytes (\<lambda>x. 0xCC) site BYTES_NOP5"

section \<open>Properties of the register file\<close>

lemma mentor_wf_init: "mentor_wf mentor_init"
  by (simp add: mentor_wf_def mentor_init_def)

lemma mentor_wf_write: "mentor_wf s \<Longrightarrow> mentor_wf (mentor_write a v s)"
  by (simp add: mentor_wf_def mentor_write_def mentor_simulate_undefined_behavior_def Let_def)

lemma mentor_wf_writes: "mentor_wf s \<Longrightarrow> mentor_wf (mentor_writes ws s)"
  by (induction ws arbitrary: s) (auto simp: mentor_wf_write)

lemma unat_lt_5: "(a :: u8) < 0x05 \<Longrightarrow> unat a < 5"
  by (simp add: word_less_nat_alt)

lemma counter_after_write:
  assumes "mentor_wf s"
  shows "mentor_data (mentor_write a v s) ! 5 =
           (if a < 0x05 then mentor_data s ! 5 + 1 else mentor_data s ! 5)"
proof (cases "a < 0x05")
  case True
  then have "unat a < 5" by (rule unat_lt_5)
  with True assms show ?thesis
    by (simp add: mentor_write_def MENTOR_TOTAL_WRITES_ADDR_def mentor_wf_def Let_def
        not_le [symmetric])
next
  case False
  then show ?thesis
    by (simp add: mentor_write_def MENTOR_TOTAL_WRITES_ADDR_def
        mentor_simulate_undefined_behavior_def not_less)
qed

lemma counter_after_writes:
  "mentor_wf s \<Longrightarrow>
     mentor_data (mentor_writes ws s) ! 5 =
       mentor_data s ! 5 + of_nat (length (filter (\<lambda>(a, v). a < 0x05) ws))"
proof (induction ws arbitrary: s)
  case Nil
  then show ?case by simp
next
  case (Cons w ws)
  obtain a v where w: "w = (a, v)" by (cases w)
  from Cons.prems have wf': "mentor_wf (mentor_write a v s)" by (rule mentor_wf_write)
  show ?case
    using Cons.IH [OF wf'] counter_after_write [OF Cons.prems, of a v]
    by (simp add: w)
qed

text \<open>
  C8: for every address \<open>a < 0x05\<close> and every value \<open>v\<close>, \<open>mentor_write a v\<close> stores \<open>v\<close>
  into cell \<open>a\<close>, increments the total-writes counter in cell \<open>0x05\<close> by exactly one
  (in \<open>u32\<close> arithmetic), leaves every other cell as it was, and a following
  \<open>__mentor_read a\<close> returns \<open>v\<close>.
\<close>

theorem mentor_write_in_range:
  assumes "mentor_wf s" and "a < 0x05"
  shows "mentor_data (mentor_write a v s) ! unat a = v \<and>
         mentor_data (mentor_write a v s) ! 5 = mentor_data s ! 5 + 1 \<and>
         (\<forall>i < 6. i \<noteq> unat a \<and> i \<noteq> 5 \<longrightarrow>
            mentor_data (mentor_write a v s) ! i = mentor_data s ! i) \<and>
         length (mentor_data (mentor_write a v s)) = 6 \<and>
         klog (mentor_write a v s) = klog s \<and>
         fst (mentor_read a (mentor_write a v s)) = v"
proof -
  have lt: "unat a < 5" using assms(2) by (rule unat_lt_5)
  have len: "length (mentor_data s) = 6" using assms(1) by (simp add: mentor_wf_def)
  have nge: "\<not> a \<ge> MENTOR_TOTAL_WRITES_ADDR"
    using assms(2) by (simp add: MENTOR_TOTAL_WRITES_ADDR_def not_le)
  have ngt: "\<not> a > MENTOR_TOTAL_WRITES_ADDR"
    using assms(2) by (simp add: MENTOR_TOTAL_WRITES_ADDR_def)
  have w: "mentor_write a v s =
      s\<lparr>mentor_data := (mentor_data s)[unat a := v, 5 := mentor_data s ! 5 + 1]\<rparr>"
    using nge lt len by (simp add: mentor_write_def Let_def MENTOR_TOTAL_WRITES_ADDR_def)
  have c1: "mentor_data (mentor_write a v s) ! unat a = v"
    using lt len by (simp add: w)
  have c2: "mentor_data (mentor_write a v s) ! 5 = mentor_data s ! 5 + 1"
    using len by (simp add: w)
  have c3: "\<forall>i < 6. i \<noteq> unat a \<and> i \<noteq> 5 \<longrightarrow>
           mentor_data (mentor_write a v s) ! i = mentor_data s ! i"
    by (simp add: w)
  have c4: "length (mentor_data (mentor_write a v s)) = 6"
    using len by (simp add: w)
  have c5: "klog (mentor_write a v s) = klog s"
    by (simp add: w)
  have c6: "fst (mentor_read a (mentor_write a v s)) = v"
    using ngt c1 by (simp add: mentor_read_def)
  from c1 c2 c3 c4 c5 c6 show ?thesis by blast
qed

theorem mentor_write_in_range_witness:
  "mentor_wf mentor_init \<and> (3 :: u8) < 0x05 \<and>
   mentor_data (mentor_write 3 7 mentor_init) = [40, 41, 42, 7, 44, 1] \<and>
   fst (mentor_read 3 (mentor_write 3 7 mentor_init)) = 7"
proof -
  have wf: "mentor_wf mentor_init" by (rule mentor_wf_init)
  have lt: "(3 :: u8) < 0x05" by simp
  have rd: "fst (mentor_read 3 (mentor_write 3 7 mentor_init)) = 7"
    using mentor_write_in_range [OF wf lt, of 7] by blast
  have "mentor_data (mentor_write 3 7 mentor_init) = [40, 41, 42, 7, 44, 1]"
    by (simp add: mentor_write_def mentor_init_def MENTOR_TOTAL_WRITES_ADDR_def Let_def)
  with wf lt rd show ?thesis by simp
qed

text \<open>
  C9: out-of-range accesses leave the register file alone, with the boundary at \<open>0x05\<close>
  on different sides for the two operations: \<open>__mentor_read a\<close> with \<open>a > 0x05\<close> returns
  \<open>0xFFFFFFFF\<close> and changes no cell; \<open>mentor_write a v\<close> with \<open>a \<ge> 0x05\<close> changes no
  cell, the write counter included; address \<open>0x05\<close> can be read, giving the number of
  in-range writes made so far (as a \<open>u32\<close>), and cannot be written.
\<close>

theorem mentor_out_of_range:
  "(a > 0x05 \<longrightarrow> fst (mentor_read a s) = 0xFFFFFFFF) \<and>
   mentor_data (snd (mentor_read a s)) = mentor_data s \<and>
   (a \<ge> 0x05 \<longrightarrow> mentor_data (mentor_write a v s) = mentor_data s) \<and>
   fst (mentor_read 0x05 s) = mentor_data s ! 5 \<and>
   fst (mentor_read 0x05 (mentor_writes ws mentor_init)) =
     of_nat (length (filter (\<lambda>(a, v). a < 0x05) ws))"
proof -
  have c1: "a > 0x05 \<longrightarrow> fst (mentor_read a s) = 0xFFFFFFFF"
    by (simp add: mentor_read_def MENTOR_TOTAL_WRITES_ADDR_def
        mentor_simulate_undefined_behavior_def)
  have c2: "mentor_data (snd (mentor_read a s)) = mentor_data s"
    by (simp add: mentor_read_def mentor_simulate_undefined_behavior_def)
  have c3: "a \<ge> 0x05 \<longrightarrow> mentor_data (mentor_write a v s) = mentor_data s"
    by (simp add: mentor_write_def MENTOR_TOTAL_WRITES_ADDR_def
        mentor_simulate_undefined_behavior_def)
  have r5: "fst (mentor_read 0x05 t) = mentor_data t ! 5" for t
    by (simp add: mentor_read_def MENTOR_TOTAL_WRITES_ADDR_def)
  have "mentor_data mentor_init ! 5 = 0" by (simp add: mentor_init_def)
  then have c5: "fst (mentor_read 0x05 (mentor_writes ws mentor_init)) =
           of_nat (length (filter (\<lambda>(a, v). a < 0x05) ws))"
    using counter_after_writes [OF mentor_wf_init, of ws] by (simp add: r5)
  from c1 c2 c3 r5 [of s] c5 show ?thesis by blast
qed

theorem mentor_out_of_range_witness:
  "(6 :: u8) > 0x05 \<and> fst (mentor_read 6 mentor_init) = 0xFFFFFFFF \<and>
   mentor_data (snd (mentor_read 6 mentor_init)) = mentor_data mentor_init \<and>
   (5 :: u8) \<ge> 0x05 \<and> mentor_data (mentor_write 5 9 mentor_init) = mentor_data mentor_init \<and>
   fst (mentor_read 0x05 (mentor_writes [(0, 1), (5, 2), (4, 3), (200, 4)] mentor_init)) = 2"
proof -
  have g: "(6 :: u8) > 0x05" by simp
  have h: "(5 :: u8) \<ge> 0x05" by simp
  have c: "of_nat (length (filter (\<lambda>(a, v). a < 0x05)
             [(0 :: u8, 1 :: u32), (5, 2), (4, 3), (200, 4)])) = (2 :: u32)"
    by simp
  show ?thesis
    using g h c
      mentor_out_of_range [of 6 mentor_init 9 "[(0, 1), (5, 2), (4, 3), (200, 4)]"]
      mentor_out_of_range [of 5 mentor_init 9 "[]"]
    by simp
qed

section \<open>Properties of the longest-symbol generator\<close>

lemma fill_loop_eq:
  "fill_loop i n out = out @ map (\<lambda>j. pattern ! (j mod 10)) [i..<n]"
proof (induction i n out rule: fill_loop.induct)
  case (1 i n out)
  show ?case
  proof (cases "i < n")
    case True
    have len: "length pattern = 10" by (simp add: pattern_def)
    from True have "[i..<n] = i # [Suc i..<n]" by (rule upt_conv_Cons)
    with True 1 len show ?thesis
      by (subst fill_loop.simps) simp
  next
    case False
    then show ?thesis by (subst fill_loop.simps) simp
  qed
qed

lemma string_lengths: "length start_str = 38" "length end_str = 36"
  by (simp_all add: start_str_def end_str_def)

lemma pattern_length_eq:
  assumes "75 \<le> K" "K \<le> 2 ^ 64"
  shows "pattern_length K = nat (K - 75)"
proof -
  have a: "(K - 1) mod 2 ^ 64 = K - 1" using assms by simp
  have b: "(K - 1 - 38) mod 2 ^ 64 = K - 39" using assms by simp
  have c: "(K - 39 - 36) mod 2 ^ 64 = K - 75" using assms by simp
  show ?thesis using assms
    by (simp add: pattern_length_def to_size_t_def string_lengths a b c)
qed

lemma main_static_assert_fails: "1 \<le> K \<Longrightarrow> K < 75 \<Longrightarrow> main K = None"
  by (simp add: main_def static_assert_ok_def to_size_t_def string_lengths)

text \<open>
  C10: the standard output of the generator is exactly \<open>KSYM_NAME_LEN - 1\<close> characters:
  the prefix \<open>start_of_the_longest_symbol_possible__\<close>, then the pattern \<open>123456789_\<close>
  repeated cyclically (character \<open>i\<close> of the filler is \<open>pattern[i mod 10]\<close>) over the
  remaining length, then the suffix \<open>__end_of_the_longest_symbol_possible\<close>; the exit
  status is 0. \<open>KSYM_NAME_LEN\<close> is any value that passes the static assertion as a
  positive length.
\<close>

theorem main_output:
  assumes "75 \<le> K" and "K \<le> 2 ^ 64"
  shows "main K =
           Some \<lparr>stdout = start_str @ map (\<lambda>i. pattern ! (i mod 10)) [0..<nat (K - 75)] @ end_str,
                 exit_status = 0\<rparr> \<and>
         length (start_str @ map (\<lambda>i. pattern ! (i mod 10)) [0..<nat (K - 75)] @ end_str)
           = nat (K - 1)"
proof -
  have a: "(K - 1) mod 2 ^ 64 = K - 1" using assms by simp
  have ok: "static_assert_ok K"
    using assms by (simp add: static_assert_ok_def to_size_t_def string_lengths a)
  have "main K =
      Some \<lparr>stdout = start_str @ map (\<lambda>i. pattern ! (i mod 10)) [0..<nat (K - 75)] @ end_str,
            exit_status = 0\<rparr>"
    using ok by (simp add: main_def Let_def fill_loop_eq pattern_length_eq [OF assms])
  moreover have
    "length (start_str @ map (\<lambda>i. pattern ! (i mod 10)) [0..<nat (K - 75)] @ end_str)
       = nat (K - 1)"
    using assms by (simp add: string_lengths)
  ultimately show ?thesis by simp
qed

theorem main_output_witness:
  "(75 :: int) \<le> 80 \<and> (80 :: int) \<le> 2 ^ 64 \<and>
   main 80 =
     Some \<lparr>stdout =
       ''start_of_the_longest_symbol_possible__12345__end_of_the_longest_symbol_possible'',
       exit_status = 0\<rparr> \<and>
   length ''start_of_the_longest_symbol_possible__12345__end_of_the_longest_symbol_possible''
     = 79"
  using main_output [of 80]
  by (simp add: start_str_def end_str_def pattern_def upt_rec)

section \<open>Properties of the jump-label header\<close>

subsection \<open>The table entry\<close>

lemma entry_fields:
  "emitted (JUMP_TABLE_ENTRY p site l_yes key branch s) =
     emitted s @
       [\<lparr>f_addr = align_up p (dot s), f_size = 4,
         f_val = (site - align_up p (dot s)) mod 2 ^ 32\<rparr>,
        \<lparr>f_addr = align_up p (dot s) + 4, f_size = 4,
         f_val = (l_yes - (align_up p (dot s) + 4)) mod 2 ^ 32\<rparr>,
        \<lparr>f_addr = align_up p (dot s) + 8, f_size = p,
         f_val = (key + branch - (align_up p (dot s) + 8)) mod 2 ^ (8 * p)\<rparr>]"
  by (simp add: JUMP_TABLE_ENTRY_def ASM_ALIGN_def asm_long_def ASM_PTR_def asm_data_def
      align_up_def Let_def add.commute)

lemma align_up_shift: "int p dvd d \<Longrightarrow> align_up p (x + d) = align_up p x + d"
proof -
  assume "int p dvd d"
  then obtain k where k: "d = int p * k" by (auto simp: dvd_def)
  have "(- (x + d)) mod int p = (- x + int p * (- k)) mod int p"
    by (simp add: k algebra_simps)
  also have "\<dots> = (- x) mod int p" by (simp only: mod_mult_self2)
  finally show ?thesis by (simp add: align_up_def)
qed

lemma or2: "(2 :: int) OR of_bool b = 2 + of_bool b"
  by (cases b) simp_all

lemma jump_entry_eq:
  "jump_entry p site l_yes key branch d =
       [\<lparr>f_addr = align_up p d, f_size = 4,
         f_val = (site - align_up p d) mod 2 ^ 32\<rparr>,
        \<lparr>f_addr = align_up p d + 4, f_size = 4,
         f_val = (l_yes - (align_up p d + 4)) mod 2 ^ 32\<rparr>,
        \<lparr>f_addr = align_up p d + 8, f_size = p,
         f_val = (key + branch - (align_up p d + 8)) mod 2 ^ (8 * p)\<rparr>]"
  by (simp add: jump_entry_def entry_fields empty_section_def)

lemma mod2_of_mod: "0 < n \<Longrightarrow> ((x :: int) mod 2 ^ n) mod 2 = x mod 2"
  by (metis dvd_power gr_implies_not0 mod_mod_cancel)

lemma mod4_of_mod: "2 \<le> n \<Longrightarrow> ((x :: int) mod 2 ^ n) mod 4 = x mod 4"
proof -
  assume "2 \<le> n"
  then have "(4 :: int) dvd 2 ^ n"
    using le_imp_power_dvd [of 2 n "2 :: int"] by simp
  then show ?thesis by (rule mod_mod_cancel)
qed

text \<open>
  C2, as stated: every descriptor is a record of three pointer-width self-relative
  fields. On a 64-bit build (\<open>p = 8\<close>) the first two fields are \<^verbatim>\<open>.long\<close>, four bytes
  each, so not every field of the entry is pointer-width.
\<close>

theorem jump_entry_pointer_width_counterexample:
  "\<not> (\<forall>f \<in> set (jump_entry 8 4096 4112 8192 1 12288). f_size f = 8)"
  by (simp add: jump_entry_eq align_up_def)

text \<open>
  C2, amended: every descriptor is a fixed-size record of three self-relative fields, a
  32-bit site offset, a 32-bit label offset and a pointer-width key reference with the
  polarity operand added; each stored value is the target address minus the field's own
  storage address, reduced to the field's width; no field holds an absolute pointer: the
  stored values stay the same when every address, the table's included, moves by one
  common multiple of the alignment.
\<close>

theorem jump_entry_self_relative:
  "jump_entry p site l_yes key branch d =
     [\<lparr>f_addr = align_up p d, f_size = 4,
       f_val = (site - align_up p d) mod 2 ^ 32\<rparr>,
      \<lparr>f_addr = align_up p d + 4, f_size = 4,
       f_val = (l_yes - (align_up p d + 4)) mod 2 ^ 32\<rparr>,
      \<lparr>f_addr = align_up p d + 8, f_size = p,
       f_val = (key + branch - (align_up p d + 8)) mod 2 ^ (8 * p)\<rparr>] \<and>
   (int p dvd delta \<longrightarrow>
      map f_val (jump_entry p (site + delta) (l_yes + delta) (key + delta) branch (d + delta)) =
      map f_val (jump_entry p site l_yes key branch d))"
proof -
  have "map f_val (jump_entry p (site + delta) (l_yes + delta) (key + delta) branch (d + delta)) =
      map f_val (jump_entry p site l_yes key branch d)" if "int p dvd delta"
    by (simp add: jump_entry_eq align_up_shift [OF that] algebra_simps)
  then show ?thesis by (simp add: jump_entry_eq)
qed

theorem jump_entry_self_relative_witness:
  "int 8 dvd 65536 \<and>
   map f_size (jump_entry 8 4096 4112 8192 1 12290) = [4, 4, 8] \<and>
   map f_addr (jump_entry 8 4096 4112 8192 1 12290) = [12296, 12300, 12304] \<and>
   map f_val (jump_entry 8 4096 4112 8192 1 12290) =
     [4294959096, 4294959108, 18446744073709547505] \<and>
   map f_val (jump_entry 8 (4096 + 65536) (4112 + 65536) (8192 + 65536) 1 (12290 + 65536)) =
     [4294959096, 4294959108, 18446744073709547505]"
proof -
  have d: "int 8 dvd 65536" by simp
  have v: "map f_val (jump_entry 8 4096 4112 8192 1 12290) =
     [4294959096, 4294959108, 18446744073709547505]"
    by (simp add: jump_entry_eq align_up_def)
  have a: "align_up 8 12290 = 12296" by (simp add: align_up_def)
  from jump_entry_self_relative [of 8 4096 4112 8192 1 12290 65536] d v
  show ?thesis by (simp add: a)
qed

subsection \<open>The polarity in the key field\<close>

text \<open>
  C3, as stated: in both variants the key field is the key reference with the one
  polarity bit, and nothing else. With \<^verbatim>\<open>CONFIG_HAVE_JUMP_LABEL_HACK\<close> the operand of
  \<^verbatim>\<open>arch_static_branch\<close> is \<^verbatim>\<open>2 | branch\<close>: for \<open>branch = false\<close> the field is the key
  reference plus 2, not the key reference plus the polarity.
\<close>

theorem key_field_one_bit_counterexample:
  "f_addr (key_field (arch_static_branch_asm True 8 4096 4112 8192 False (empty_section 12288)))
     = 12296 \<and>
   f_val (key_field (arch_static_branch_asm True 8 4096 4112 8192 False (empty_section 12288)))
     = 18446744073709547514 \<and>
   f_val (key_field (arch_static_branch_asm True 8 4096 4112 8192 False (empty_section 12288)))
     \<noteq> (8192 + of_bool False - 12296) mod 2 ^ 64"
  by (simp add: key_field_def arch_static_branch_asm_def ARCH_STATIC_BRANCH_ASM_def
      entry_fields empty_section_def align_up_def)

text \<open>
  C3, amended: the key field is the self-relative key reference plus the polarity (0 or
  1) for \<^verbatim>\<open>arch_static_branch_jump\<close> in both variants and for \<^verbatim>\<open>arch_static_branch\<close>
  without the flag; with the flag \<^verbatim>\<open>arch_static_branch\<close> adds \<^verbatim>\<open>2 | branch\<close>, the
  polarity and the constant 2. When the key reference is a multiple of 4, bit 0 of the
  field is the polarity and bit 1 is set exactly with the flag.
\<close>

theorem key_field_polarity:
  "f_val (key_field (arch_static_branch_asm hack p site l_yes key branch tbl)) =
     (key - f_addr (key_field (arch_static_branch_asm hack p site l_yes key branch tbl))
        + (if hack then 2 else 0) + of_bool branch) mod 2 ^ (8 * p) \<and>
   f_val (key_field (arch_static_branch_jump_asm p site l_yes key branch tbl)) =
     (key - f_addr (key_field (arch_static_branch_jump_asm p site l_yes key branch tbl))
        + of_bool branch) mod 2 ^ (8 * p) \<and>
   (0 < p \<and> 4 dvd key - f_addr (key_field (arch_static_branch_asm hack p site l_yes key branch tbl)) \<longrightarrow>
      (f_val (key_field (arch_static_branch_asm hack p site l_yes key branch tbl)) mod 2 = 1)
        = branch \<and>
      (f_val (key_field (arch_static_branch_asm hack p site l_yes key branch tbl)) mod 4 div 2 = 1)
        = hack)"
proof -
  let ?a = "align_up p (dot tbl) + 8"
  have A: "f_addr (key_field (arch_static_branch_asm hack p site l_yes key branch tbl)) = ?a"
    by (simp add: key_field_def arch_static_branch_asm_def ARCH_STATIC_BRANCH_ASM_def entry_fields)
  have V: "f_val (key_field (arch_static_branch_asm hack p site l_yes key branch tbl)) =
     (key - ?a + (if hack then 2 else 0) + of_bool branch) mod 2 ^ (8 * p)"
    by (simp add: key_field_def arch_static_branch_asm_def ARCH_STATIC_BRANCH_ASM_def
        entry_fields or2 algebra_simps)
  have J: "f_val (key_field (arch_static_branch_jump_asm p site l_yes key branch tbl)) =
     (key - f_addr (key_field (arch_static_branch_jump_asm p site l_yes key branch tbl))
        + of_bool branch) mod 2 ^ (8 * p)"
    by (simp add: key_field_def arch_static_branch_jump_asm_def entry_fields algebra_simps)
  have B: "(f_val (key_field (arch_static_branch_asm hack p site l_yes key branch tbl)) mod 2 = 1)
        = branch \<and>
      (f_val (key_field (arch_static_branch_asm hack p site l_yes key branch tbl)) mod 4 div 2 = 1)
        = hack" if p: "0 < p" and al: "4 dvd key - ?a"
  proof -
    from al obtain k where k: "key - ?a = 4 * k" by (auto simp: dvd_def)
    have n: "2 \<le> 8 * p" "0 < 8 * p" using p by simp_all
    have m4: "f_val (key_field (arch_static_branch_asm hack p site l_yes key branch tbl)) mod 4
        = (if hack then 2 else 0) + of_bool branch"
      unfolding V mod4_of_mod [OF n(1)] k by (cases hack; cases branch) simp_all
    have m2: "f_val (key_field (arch_static_branch_asm hack p site l_yes key branch tbl)) mod 2
        = of_bool branch"
      unfolding V mod2_of_mod [OF n(2)] k by (cases hack; cases branch; simp; presburger)
    show ?thesis unfolding m4 m2 by (cases hack; cases branch) simp_all
  qed
  from V J B show ?thesis unfolding A by blast
qed

theorem key_field_polarity_witness:
  "0 < (8 :: nat) \<and>
   f_val (key_field (arch_static_branch_asm True 8 4096 4112 8192 True (empty_section 12288))) =
     18446744073709547515 \<and>
   f_val (key_field (arch_static_branch_asm True 8 4096 4112 8192 True (empty_section 12288))) mod 2 = 1 \<and>
   f_val (key_field (arch_static_branch_asm True 8 4096 4112 8192 True (empty_section 12288))) mod 4 div 2 = 1"
proof -
  have A: "f_addr (key_field (arch_static_branch_asm True 8 4096 4112 8192 True (empty_section 12288))) = 12296"
    by (simp add: key_field_def arch_static_branch_asm_def ARCH_STATIC_BRANCH_ASM_def
      entry_fields empty_section_def align_up_def)
  have d: "(4 :: int) dvd 8192 - 12296" by simp
  from key_field_polarity [of True 8 4096 4112 8192 True "empty_section 12288"] d
  show ?thesis unfolding A by simp
qed

subsection \<open>The compiled site and the value of the check\<close>

lemma compile_call_site:
  "site_insn (compile_call hack p c tbl) = variant_site hack c \<and>
   site_addr (compile_call hack p c tbl) = c_site c"
  by (cases "c_fn c")
    (simp_all add: compile_call_def variant_site_def arch_static_branch_asm_def
      ARCH_STATIC_BRANCH_ASM_def arch_static_branch_jump_asm_def)

lemma compile_call_table:
  "length (emitted (jump_table (compile_call hack p c tbl))) = length (emitted tbl) + 3"
  by (cases "c_fn c")
    (simp_all add: compile_call_def arch_static_branch_asm_def
      ARCH_STATIC_BRANCH_ASM_def arch_static_branch_jump_asm_def entry_fields)

lemma compile_calls_sites:
  "fst (compile_calls hack p cs tbl) = map (\<lambda>c. (c_site c, variant_site hack c)) cs"
  by (induction cs arbitrary: tbl) (simp_all add: Let_def compile_call_site)

lemma compile_calls_table:
  "length (emitted (snd (compile_calls hack p cs tbl))) = length (emitted tbl) + 3 * length cs"
  by (induction cs arbitrary: tbl) (simp_all add: Let_def compile_call_table)

text \<open>
  C5, as stated: without the flag the compiled site is the padding placeholder. In a
  build without the flag a call of \<^verbatim>\<open>arch_static_branch_jump\<close> compiles to the
  unconditional \<^verbatim>\<open>jmp\<close> to its label, not to the placeholder: such a build holds sites
  of both shapes.
\<close>

theorem placeholder_without_flag_counterexample:
  "site_insn (compile_call False 8
      \<lparr>c_fn = Static_branch_jump, c_site = 4096, c_l_yes = 4112, c_key = 8192, c_branch = True\<rparr>
      (empty_section 12288)) = JMP 4112 \<and>
   site_insn (compile_call False 8
      \<lparr>c_fn = Static_branch_jump, c_site = 4096, c_l_yes = 4112, c_key = 8192, c_branch = True\<rparr>
      (empty_section 12288)) \<noteq> BYTE BYTES_NOP5"
  by (simp add: compile_call_def arch_static_branch_jump_asm_def)

text \<open>
  C5, amended: in any single build the flag alone selects the one definition of
  \<^verbatim>\<open>arch_static_branch\<close> that is compiled in, for every call, whatever its site, key
  and polarity. With the flag every compiled site is an unconditional transfer to the
  taken label (Variant A). Without it every site of \<^verbatim>\<open>arch_static_branch\<close> is the
  padding placeholder (Variant B), and every site of \<^verbatim>\<open>arch_static_branch_jump\<close> is an
  unconditional transfer to the taken label, as it is with the flag. Every call
  appends one three-field entry to the table.
\<close>

theorem build_site_encodings:
  "map snd (fst (compile_calls hack p cs tbl)) =
     map (\<lambda>c. if hack then JMP (c_l_yes c)
              else (case c_fn c of Static_branch \<Rightarrow> BYTE BYTES_NOP5
                                 | Static_branch_jump \<Rightarrow> JMP (c_l_yes c))) cs \<and>
   map fst (fst (compile_calls hack p cs tbl)) = map c_site cs \<and>
   length (emitted (snd (compile_calls hack p cs tbl))) = length (emitted tbl) + 3 * length cs \<and>
   map snd (fst (compile_calls True p cs tbl)) = map (\<lambda>c. JMP (c_l_yes c)) cs \<and>
   map snd (fst (compile_calls False p (filter (\<lambda>c. c_fn c = Static_branch) cs) tbl)) =
     replicate (length (filter (\<lambda>c. c_fn c = Static_branch) cs)) (BYTE BYTES_NOP5)"
proof -
  have 1: "map snd (fst (compile_calls h p cs tbl)) = map (variant_site h) cs" for h cs
    by (simp add: compile_calls_sites comp_def)
  have 2: "map fst (fst (compile_calls hack p cs tbl)) = map c_site cs"
    by (simp add: compile_calls_sites comp_def)
  have 3: "map (variant_site False) (filter (\<lambda>c. c_fn c = Static_branch) xs) =
     replicate (length (filter (\<lambda>c. c_fn c = Static_branch) xs)) (BYTE BYTES_NOP5)" for xs
    by (induction xs) (simp_all add: variant_site_def)
  have 4: "variant_site hack = (\<lambda>c. if hack then JMP (c_l_yes c)
              else (case c_fn c of Static_branch \<Rightarrow> BYTE BYTES_NOP5
                                 | Static_branch_jump \<Rightarrow> JMP (c_l_yes c)))"
    by (rule ext) (simp add: variant_site_def)
  have 5: "variant_site True = (\<lambda>c. JMP (c_l_yes c))"
    by (rule ext) (simp add: variant_site_def)
  show ?thesis
    using 1 [of hack cs] 1 [of True cs] 1 [of False "filter (\<lambda>c. c_fn c = Static_branch) cs"]
      2 3 [of cs] compile_calls_table [of hack p cs tbl]
    by (simp add: 4 5)
qed

theorem build_site_encodings_witness:
  "fst (compile_calls False 8
     [\<lparr>c_fn = Static_branch, c_site = 4096, c_l_yes = 4112, c_key = 8192, c_branch = False\<rparr>,
      \<lparr>c_fn = Static_branch_jump, c_site = 4200, c_l_yes = 4300, c_key = 8192, c_branch = True\<rparr>]
     (empty_section 12288)) = [(4096, BYTE BYTES_NOP5), (4200, JMP 4300)] \<and>
   fst (compile_calls True 8
     [\<lparr>c_fn = Static_branch, c_site = 4096, c_l_yes = 4112, c_key = 8192, c_branch = False\<rparr>,
      \<lparr>c_fn = Static_branch_jump, c_site = 4200, c_l_yes = 4300, c_key = 8192, c_branch = True\<rparr>]
     (empty_section 12288)) = [(4096, JMP 4112), (4200, JMP 4300)]"
proof -
  let ?cs = "[\<lparr>c_fn = Static_branch, c_site = 4096, c_l_yes = 4112, c_key = 8192, c_branch = False\<rparr>,
      \<lparr>c_fn = Static_branch_jump, c_site = 4200, c_l_yes = 4300, c_key = 8192, c_branch = True\<rparr>]"
  have z: "fst (compile_calls h 8 ?cs (empty_section 12288)) =
      zip (map fst (fst (compile_calls h 8 ?cs (empty_section 12288))))
          (map snd (fst (compile_calls h 8 ?cs (empty_section 12288))))" for h
    by (simp add: zip_map_fst_snd)
  show ?thesis
    using build_site_encodings [of False 8 ?cs "empty_section 12288"]
      build_site_encodings [of True 8 ?cs "empty_section 12288"]
    by (subst z, subst (2) z) simp
qed

text \<open>
  C1: \<^verbatim>\<open>arch_static_branch\<close>, in both variants, and \<^verbatim>\<open>arch_static_branch_jump\<close> return
  false when execution falls through the \<^verbatim>\<open>asm goto\<close> and true exactly when control
  transfers to \<^verbatim>\<open>l_yes\<close>.
\<close>

theorem branch_result:
  "arch_static_branch hack ex = (ex = Goto_l_yes) \<and>
   arch_static_branch_jump ex = (ex = Goto_l_yes) \<and>
   arch_static_branch hack Fallthrough = False \<and>
   arch_static_branch_jump Fallthrough = False"
  by (cases ex) (simp_all add: arch_static_branch_def arch_static_branch_jump_def)

subsection \<open>The entry-size oracle and the patched site\<close>

lemma length_site_encoding: "length (site_encoding site l_yes en) = 5"
  by (simp add: site_encoding_def JMP32_def le32_def BYTES_NOP5_def)

lemma read_after_write: "read_bytes (write_bytes mem a bs) a (length bs) = bs"
  by (rule nth_equalityI) (simp_all add: read_bytes_def write_bytes_def)

lemma hd_after_write: "bs \<noteq> [] \<Longrightarrow> write_bytes mem a bs a = hd bs"
  by (cases bs) (simp_all add: write_bytes_def)

lemma write_bytes_frame: "x < a \<or> a + int (length bs) \<le> x \<Longrightarrow> write_bytes mem a bs x = mem x"
  by (auto simp: write_bytes_def)

lemma entry_size_after_write:
  "arch_jump_entry_size (write_bytes mem site (site_encoding site l_yes en)) site = Some 5"
proof -
  have r: "read_bytes (write_bytes mem site (site_encoding site l_yes en)) site 5
             = site_encoding site l_yes en"
    using read_after_write [of mem site "site_encoding site l_yes en"]
    by (simp add: length_site_encoding)
  show ?thesis
  proof (cases en)
    case True
    have ne: "site_encoding site l_yes en \<noteq> []"
      using length_site_encoding [of site l_yes en] by auto
    have "write_bytes mem site (site_encoding site l_yes en) site = 0xE9"
      using hd_after_write [OF ne, of mem site] True by (simp add: site_encoding_def JMP32_def)
    then show ?thesis by (simp add: arch_jump_entry_size_def)
  next
    case False
    with r show ?thesis by (simp add: arch_jump_entry_size_def site_encoding_def)
  qed
qed

lemma JMP32_example: "JMP32 4096 4112 = [0xE9, 0x0B, 0, 0, 0]"
  by (simp add: JMP32_def le32_def upt_rec)

lemma length_BYTES_NOP5: "length BYTES_NOP5 = 5"
  by (simp add: BYTES_NOP5_def)

lemma placeholder_size: "arch_jump_entry_size (placeholder_text site) site = Some 5"
  using read_after_write [of "\<lambda>x. 0xCC" site BYTES_NOP5]
  by (simp add: arch_jump_entry_size_def placeholder_text_def length_BYTES_NOP5)

text \<open>
  C6: after a successful patch that installs an encoding at a site, the entry-size
  oracle at that site returns the byte length of that encoding, and the site holds its
  bytes; when the bytes at a site are neither the padding nor a transfer the oracle
  fails, and so does the patch.
\<close>

theorem entry_size_after_patch:
  "(patch_site mem site l_yes en = Some mem' \<longrightarrow>
      arch_jump_entry_size mem' site = Some (length (site_encoding site l_yes en)) \<and>
      read_bytes mem' site (length (site_encoding site l_yes en)) = site_encoding site l_yes en) \<and>
   (read_bytes mem site 5 \<noteq> BYTES_NOP5 \<and> mem site \<noteq> 0xE9 \<longrightarrow>
      arch_jump_entry_size mem site = None \<and> patch_site mem site l_yes en = None)"
proof -
  have 1: "arch_jump_entry_size mem' site = Some (length (site_encoding site l_yes en)) \<and>
      read_bytes mem' site (length (site_encoding site l_yes en)) = site_encoding site l_yes en"
    if "patch_site mem site l_yes en = Some mem'"
  proof -
    from that have m: "mem' = write_bytes mem site (site_encoding site l_yes en)"
      by (auto simp: patch_site_def split: option.splits)
    show ?thesis
      unfolding m using entry_size_after_write [of mem site l_yes en]
        read_after_write [of mem site "site_encoding site l_yes en"]
      by (simp add: length_site_encoding)
  qed
  have 2: "arch_jump_entry_size mem site = None \<and> patch_site mem site l_yes en = None"
    if "read_bytes mem site 5 \<noteq> BYTES_NOP5 \<and> mem site \<noteq> 0xE9"
    using that by (simp add: arch_jump_entry_size_def patch_site_def)
  from 1 2 show ?thesis by blast
qed

theorem entry_size_after_patch_witness:
  "patch_site (placeholder_text 4096) 4096 4112 True =
     Some (write_bytes (placeholder_text 4096) 4096 [0xE9, 0x0B, 0, 0, 0]) \<and>
   arch_jump_entry_size (write_bytes (placeholder_text 4096) 4096 [0xE9, 0x0B, 0, 0, 0]) 4096 = Some 5 \<and>
   read_bytes (\<lambda>x. 0xCC) 4096 5 \<noteq> BYTES_NOP5 \<and> (0xCC :: byte) \<noteq> 0xE9 \<and>
   arch_jump_entry_size (\<lambda>x. 0xCC) 4096 = None"
proof -
  have p: "patch_site (placeholder_text 4096) 4096 4112 True =
     Some (write_bytes (placeholder_text 4096) 4096 [0xE9, 0x0B, 0, 0, 0])"
    by (simp add: patch_site_def placeholder_size site_encoding_def JMP32_example)
  have r: "read_bytes (\<lambda>x. 0xCC) 4096 5 \<noteq> BYTES_NOP5"
    by (simp add: read_bytes_def BYTES_NOP5_def upt_rec)
  have b: "(0xCC :: byte) \<noteq> 0xE9" by simp
  from entry_size_after_patch [of "placeholder_text 4096" 4096 4112 True
      "write_bytes (placeholder_text 4096) 4096 [0xE9, 0x0B, 0, 0, 0]"]
    entry_size_after_patch [of "\<lambda>x. 0xCC" 4096 4112 True] p r b
  show ?thesis by (simp add: length_site_encoding)
qed

text \<open>
  C4: without the flag the compiled site of \<^verbatim>\<open>arch_static_branch\<close> is the padding
  \<^verbatim>\<open>BYTES_NOP5\<close>, five bytes, the length of the \<^verbatim>\<open>jmp\<close> that replaces it when the key
  is enabled; a patch in either direction rewrites the five bytes of the site and no
  byte outside them.
\<close>

theorem placeholder_matches_transfer:
  "site_insn (arch_static_branch_asm False p site l_yes key branch tbl) = BYTE BYTES_NOP5 \<and>
   length BYTES_NOP5 = 5 \<and>
   length (JMP32 site l_yes) = 5 \<and>
   length (site_encoding site l_yes en) = length BYTES_NOP5 \<and>
   (patch_site mem site l_yes en = Some mem' \<longrightarrow>
      arch_jump_entry_size mem site = Some (length (site_encoding site l_yes en)) \<and>
      (\<forall>x. x < site \<or> site + 5 \<le> x \<longrightarrow> mem' x = mem x) \<and>
      read_bytes mem' site 5 = site_encoding site l_yes en)"
proof -
  have 1: "site_insn (arch_static_branch_asm False p site l_yes key branch tbl) = BYTE BYTES_NOP5"
    by (simp add: arch_static_branch_asm_def ARCH_STATIC_BRANCH_ASM_def)
  have 2: "length BYTES_NOP5 = 5" by (simp add: BYTES_NOP5_def)
  have 3: "length (JMP32 site l_yes) = 5" by (simp add: JMP32_def le32_def)
  have 4: "length (site_encoding site l_yes en) = length BYTES_NOP5"
    by (simp add: length_site_encoding 2)
  have 5: "arch_jump_entry_size mem site = Some (length (site_encoding site l_yes en)) \<and>
      (\<forall>x. x < site \<or> site + 5 \<le> x \<longrightarrow> mem' x = mem x) \<and>
      read_bytes mem' site 5 = site_encoding site l_yes en"
    if "patch_site mem site l_yes en = Some mem'"
  proof -
    from that have m: "mem' = write_bytes mem site (site_encoding site l_yes en)"
      by (auto simp: patch_site_def split: option.splits)
    from that have o: "arch_jump_entry_size mem site = Some 5"
      by (auto simp: patch_site_def arch_jump_entry_size_def split: option.splits if_splits)
    show ?thesis
      unfolding m using o read_after_write [of mem site "site_encoding site l_yes en"]
        write_bytes_frame [of _ site "site_encoding site l_yes en" mem]
      by (simp add: length_site_encoding)
  qed
  from 1 2 3 4 5 show ?thesis by blast
qed

theorem placeholder_matches_transfer_witness:
  "patch_site (placeholder_text 4096) 4096 4112 True =
     Some (write_bytes (placeholder_text 4096) 4096 [0xE9, 0x0B, 0, 0, 0]) \<and>
   read_bytes (write_bytes (placeholder_text 4096) 4096 [0xE9, 0x0B, 0, 0, 0]) 4096 5 =
     [0xE9, 0x0B, 0, 0, 0] \<and>
   length (site_encoding 4096 4112 True) = length BYTES_NOP5"
proof -
  have p: "patch_site (placeholder_text 4096) 4096 4112 True =
     Some (write_bytes (placeholder_text 4096) 4096 [0xE9, 0x0B, 0, 0, 0])"
    by (simp add: patch_site_def placeholder_size site_encoding_def JMP32_example)
  from placeholder_matches_transfer [of 8 4096 4112 8192 True "empty_section 12288" True
      "placeholder_text 4096" "write_bytes (placeholder_text 4096) 4096 [0xE9, 0x0B, 0, 0, 0]"] p
  show ?thesis by (simp add: site_encoding_def JMP32_example)
qed

end
